theory Spec2Isabelle
  imports Complex_Main
begin

section \<open>Resilience patterns: the circuit breaker (resilience.ts)\<close>

text \<open>
  The class \<open>CircuitBreaker\<close> becomes a record of its private fields; each method takes
  the breaker and returns the updated one (with the method's value where it has one).
  \<open>Date.now()\<close> is an argument: the number of milliseconds read by the call. A method
  body runs without interruption, so the two reads of \<open>recordFailure\<close> (one for
  \<open>lastFailureTime\<close>, one inside \<open>setNextAttemptTime\<close>) are the same reading.
  The thresholds and the timeout are natural numbers. An optional number field is an
  option; the source tests \<open>this.nextAttemptTime\<close> for truthiness, which fails for
  \<open>undefined\<close> and for \<open>0\<close>.
\<close>

datatype CircuitState = Closed | Open | HalfOpen

record CircuitBreakerConfig =
  failureThreshold :: nat
  successThreshold :: nat
  timeout :: nat

record CircuitBreaker =
  config :: CircuitBreakerConfig
  state :: CircuitState
  failures :: nat
  successes :: nat
  lastFailureTime :: "nat option"
  nextAttemptTime :: "nat option"

definition CircuitBreaker_new :: "CircuitBreakerConfig \<Rightarrow> CircuitBreaker" where
  "CircuitBreaker_new cfg =
     \<lparr>config = cfg, state = Closed, failures = 0, successes = 0,
      lastFailureTime = None, nextAttemptTime = None\<rparr>"

fun truthy :: "nat option \<Rightarrow> bool" where
  "truthy None = False"
| "truthy (Some n) = (n \<noteq> 0)"

definition isOpen :: "nat \<Rightarrow> CircuitBreaker \<Rightarrow> bool \<times> CircuitBreaker" where
  "isOpen now b =
     (if state b = Closed then (False, b)
      else if state b = Open \<and> truthy (nextAttemptTime b) \<and> now \<ge> the (nextAttemptTime b)
      then (False, b\<lparr>state := HalfOpen, nextAttemptTime := None\<rparr>)
      else (state b = Open, b))"

definition recordSuccess :: "CircuitBreaker \<Rightarrow> CircuitBreaker" where
  "recordSuccess b =
     (let b1 = b\<lparr>failures := 0\<rparr> in
      if state b1 = HalfOpen then
        (let b2 = b1\<lparr>successes := successes b1 + 1\<rparr> in
         if successes b2 \<ge> successThreshold (config b2)
         then b2\<lparr>state := Closed, successes := 0\<rparr>
         else b2)
      else b1)"

definition setNextAttemptTime :: "nat \<Rightarrow> CircuitBreaker \<Rightarrow> CircuitBreaker" where
  "setNextAttemptTime now b = b\<lparr>nextAttemptTime := Some (now + timeout (config b))\<rparr>"

definition recordFailure :: "nat \<Rightarrow> CircuitBreaker \<Rightarrow> CircuitBreaker" where
  "recordFailure now b =
     (let b1 = b\<lparr>failures := failures b + 1, lastFailureTime := Some now\<rparr> in
      if state b1 = HalfOpen then
        (setNextAttemptTime now (b1\<lparr>state := Open\<rparr>))\<lparr>successes := 0\<rparr>
      else if failures b1 \<ge> failureThreshold (config b1) then
        setNextAttemptTime now (b1\<lparr>state := Open\<rparr>)
      else b1)"

definition getState :: "nat \<Rightarrow> CircuitBreaker \<Rightarrow> CircuitState \<times> CircuitBreaker" where
  "getState now b =
     (if state b = Open \<and> truthy (nextAttemptTime b) \<and> now \<ge> the (nextAttemptTime b)
      then (HalfOpen, b\<lparr>state := HalfOpen, nextAttemptTime := None\<rparr>)
      else (state b, b))"

definition reset :: "CircuitBreaker \<Rightarrow> CircuitBreaker" where
  "reset b =
     b\<lparr>state := Closed, failures := 0, successes := 0,
       lastFailureTime := None, nextAttemptTime := None\<rparr>"

section \<open>The error taxonomy (errors.ts)\<close>

text \<open>
  An error object keeps the fields the runtime reads: its class (which also fixes the
  \<open>name\<close> string and decides every \<open>instanceof\<close> test), its message, its code and
  its retryable flag. The metadata bag and the extra typed fields of the subclasses are
  never read by the retry loops or by \<open>execute\<close> and are left out. Each constructor
  below is the constructor of the class of the same name.
\<close>

datatype ErrorClass =
    AgentError | AgentTimeoutError | AgentRateLimitError | AgentModelError
  | AgentToolError | AgentValidationError | AgentMemoryError | AgentCircuitOpenError

record AgentErrorObject =
  name :: ErrorClass
  message :: string
  code :: string
  retryable :: bool

fun show_nat :: "nat \<Rightarrow> string" where
  "show_nat n =
     (if n < 10 then [char_of (48 + n)]
      else show_nat (n div 10) @ [char_of (48 + n mod 10)])"

definition AgentError_new :: "string \<Rightarrow> string \<Rightarrow> bool \<Rightarrow> AgentErrorObject" where
  "AgentError_new msg c r = \<lparr>name = AgentError, message = msg, code = c, retryable = r\<rparr>"

definition AgentTimeoutError_new :: "string \<Rightarrow> nat \<Rightarrow> AgentErrorObject" where
  "AgentTimeoutError_new operation ms =
     (AgentError_new
        (''Operation '' @ [CHR 0x27] @ operation @ [CHR 0x27] @ '' timed out after '' @
         show_nat ms @ ''ms'')
        ''AGENT_TIMEOUT'' True)\<lparr>name := AgentTimeoutError\<rparr>"

definition AgentRateLimitError_new :: "string \<Rightarrow> AgentErrorObject" where
  "AgentRateLimitError_new msg =
     (AgentError_new msg ''AGENT_RATE_LIMIT'' True)\<lparr>name := AgentRateLimitError\<rparr>"

definition AgentModelError_new :: "string \<Rightarrow> nat option \<Rightarrow> AgentErrorObject" where
  "AgentModelError_new msg statusCode =
     (AgentError_new msg ''AGENT_MODEL_ERROR''
        (case statusCode of None \<Rightarrow> False | Some c \<Rightarrow> c \<ge> 500))\<lparr>name := AgentModelError\<rparr>"

definition AgentToolError_new :: "string \<Rightarrow> string \<Rightarrow> AgentErrorObject" where
  "AgentToolError_new toolName msg =
     (AgentError_new (''Tool '' @ [CHR 0x27] @ toolName @ [CHR 0x27] @ '' failed: '' @ msg)
        ''AGENT_TOOL_ERROR'' False)\<lparr>name := AgentToolError\<rparr>"

definition AgentValidationError_new :: "string \<Rightarrow> AgentErrorObject" where
  "AgentValidationError_new msg =
     (AgentError_new msg ''AGENT_VALIDATION_ERROR'' False)\<lparr>name := AgentValidationError\<rparr>"

definition AgentMemoryError_new :: "string \<Rightarrow> AgentErrorObject" where
  "AgentMemoryError_new msg =
     (AgentError_new msg ''AGENT_MEMORY_ERROR'' True)\<lparr>name := AgentMemoryError\<rparr>"

definition AgentCircuitOpenError_new :: AgentErrorObject where
  "AgentCircuitOpenError_new =
     (AgentError_new ''Circuit breaker is open'' ''AGENT_CIRCUIT_OPEN'' False)
       \<lparr>name := AgentCircuitOpenError\<rparr>"

text \<open>
  What a \<open>catch\<close> clause can receive: an object of the taxonomy, any other \<open>Error\<close>
  (with its message), or a value that is no \<open>Error\<close> at all (with its \<open>String(...)\<close>).
\<close>

datatype Thrown = Agent AgentErrorObject | Plain string | Value string

fun instanceof_Error :: "Thrown \<Rightarrow> bool" where
  "instanceof_Error (Value s) = False"
| "instanceof_Error e = True"

fun instanceof_AgentError :: "Thrown \<Rightarrow> bool" where
  "instanceof_AgentError (Agent a) = True"
| "instanceof_AgentError e = False"

fun instanceof_AgentTimeoutError :: "Thrown \<Rightarrow> bool" where
  "instanceof_AgentTimeoutError (Agent a) = (name a = AgentTimeoutError)"
| "instanceof_AgentTimeoutError e = False"

text \<open>\<open>error instanceof Error ? error.message : String(error)\<close>\<close>

fun error_text :: "Thrown \<Rightarrow> string" where
  "error_text (Agent a) = message a"
| "error_text (Plain m) = m"
| "error_text (Value s) = s"

text \<open>\<open>error instanceof Error ? error : new Error(String(error))\<close>\<close>

fun as_Error :: "Thrown \<Rightarrow> Thrown" where
  "as_Error (Value s) = Plain s"
| "as_Error e = e"

text \<open>\<open>error instanceof AgentError && !error.retryable\<close>\<close>

fun non_retryable :: "Thrown \<Rightarrow> bool" where
  "non_retryable (Agent a) = (\<not> retryable a)"
| "non_retryable e = False"

section \<open>Retry with backoff (resilience.ts)\<close>

text \<open>
  Numbers that need not be whole (delays, the backoff factor, \<open>Math.random()\<close>) are
  reals. An asynchronous operation is described by how its promise settles: it resolves
  or rejects after some milliseconds, or it never settles. The operation handed to a
  retry loop has effects, so it is a function of the number of the call: \<open>fn n\<close> is
  how the call number \<open>n\<close> (from 0) settles. \<open>Math.random()\<close> is likewise a function
  of the attempt in which \<open>calculateDelay\<close> reads it.

  A retry loop returns how its own promise settles (the milliseconds counted from its
  start) together with the trace of what it did, in order: every call of the operation,
  every delay it computed, every callback and every sleep. The optional \<open>onRetry\<close>
  callback is a flag: when present, each of its calls is recorded.
\<close>

record RetryConfig =
  maxRetries :: nat
  baseDelay :: real
  maxDelay :: real
  factor :: real

datatype 'a Outcome = Resolves real 'a | Rejects real Thrown | NeverSettles

datatype Event =
    Ev_execution_start string string
  | Ev_execution_attempt nat nat
  | Ev_execution_retry nat real string
  | Ev_execution_complete string
  | Ev_execution_error string Thrown

datatype Effect =
    Call nat
  | ComputeDelay nat real
  | OnRetry nat Thrown real
  | Sleep real
  | Emit Event

record 'a Run =
  trace :: "Effect list"
  outcome :: "'a Outcome"

definition calculateDelay :: "real \<Rightarrow> nat \<Rightarrow> RetryConfig \<Rightarrow> real" where
  "calculateDelay rnd attempt cfg =
     (let exponentialDelay = baseDelay cfg * factor cfg ^ attempt;
          jitter = rnd * 0.1 * exponentialDelay
      in min (exponentialDelay + jitter) (maxDelay cfg))"

text \<open>
  \<open>setTimeout(callback, ms)\<close> as Node applies it: a delay below 1 or above 2147483647
  is set to 1, and a delay that is not whole is truncated. \<open>timer_ms ms\<close> is the
  number of milliseconds after which the callback runs; both \<open>sleep\<close> and the deadline
  of \<open>execute\<close> are such timers.
\<close>

definition timer_ms :: "real \<Rightarrow> real" where
  "timer_ms ms = (if 1 \<le> ms \<and> ms \<le> 2147483647 then real_of_int \<lfloor>ms\<rfloor> else 1)"

text \<open>What came before a run: its effects, and the milliseconds it took.\<close>

fun later :: "real \<Rightarrow> 'a Outcome \<Rightarrow> 'a Outcome" where
  "later ms (Resolves d v) = Resolves (ms + d) v"
| "later ms (Rejects d e) = Rejects (ms + d) e"
| "later ms NeverSettles = NeverSettles"

definition preceded :: "Effect list \<Rightarrow> real \<Rightarrow> 'a Run \<Rightarrow> 'a Run" where
  "preceded effs ms r = \<lparr>trace = effs @ trace r, outcome = later ms (outcome r)\<rparr>"

text \<open>\<open>throw lastError\<close>, where \<open>lastError\<close> may still be \<open>undefined\<close>.\<close>

fun throw_lastError :: "Thrown option \<Rightarrow> Thrown" where
  "throw_lastError None = Value ''undefined''"
| "throw_lastError (Some e) = e"

function withRetry_loop ::
  "(nat \<Rightarrow> 'a Outcome) \<Rightarrow> RetryConfig \<Rightarrow> bool \<Rightarrow> (nat \<Rightarrow> real) \<Rightarrow> nat \<Rightarrow> Thrown option \<Rightarrow> 'a Run"
where
  "withRetry_loop fn cfg onRetry rnd attempt lastError =
     (if attempt \<le> maxRetries cfg then
        (case fn attempt of
           Resolves d v \<Rightarrow> \<lparr>trace = [Call attempt], outcome = Resolves d v\<rparr>
         | NeverSettles \<Rightarrow> \<lparr>trace = [Call attempt], outcome = NeverSettles\<rparr>
         | Rejects d err \<Rightarrow>
             (if attempt = maxRetries cfg then
                \<lparr>trace = [Call attempt], outcome = Rejects d (throw_lastError (Some (as_Error err)))\<rparr>
              else
                (let delay = calculateDelay (rnd attempt) attempt cfg in
                 preceded
                   ([Call attempt, ComputeDelay attempt delay] @
                    (if onRetry then [OnRetry (attempt + 1) (as_Error err) delay] else []) @
                    [Sleep delay])
                   (d + timer_ms delay)
                   (withRetry_loop fn cfg onRetry rnd (attempt + 1) (Some (as_Error err))))))
      else \<lparr>trace = [], outcome = Rejects 0 (throw_lastError lastError)\<rparr>)"
  by pat_completeness auto
termination
  by (relation "measure (\<lambda>(fn, cfg, onRetry, rnd, attempt, lastError). maxRetries cfg + 1 - attempt)")
     auto

definition withRetry :: "(nat \<Rightarrow> 'a Outcome) \<Rightarrow> RetryConfig \<Rightarrow> bool \<Rightarrow> (nat \<Rightarrow> real) \<Rightarrow> 'a Run" where
  "withRetry fn cfg onRetry rnd = withRetry_loop fn cfg onRetry rnd 0 None"

text \<open>The number of times a run called the operation.\<close>

fun is_Call :: "Effect \<Rightarrow> bool" where
  "is_Call (Call n) = True"
| "is_Call e = False"

fun is_Sleep :: "Effect \<Rightarrow> bool" where
  "is_Sleep (Sleep d) = True"
| "is_Sleep e = False"

fun is_ComputeDelay :: "Effect \<Rightarrow> bool" where
  "is_ComputeDelay (ComputeDelay n d) = True"
| "is_ComputeDelay e = False"

definition invocations :: "Effect list \<Rightarrow> nat" where
  "invocations effs = length (filter is_Call effs)"

section \<open>Types of the runtime (types.ts) and metrics (metrics.ts)\<close>

text \<open>
  Optional fields that no code of the runtime sets or reads (a message's \<open>name\<close>,
  \<open>toolCallId\<close> and \<open>metadata\<close>, a tool call's arguments, the result's
  \<open>metadata\<close>) are left out. \<open>id\<close> and \<open>output\<close> are reserved words here, so the
  result's fields of these names are \<open>result_id\<close> and \<open>result_output\<close>. The
  duration is a difference of two clock readings, hence an integer.
\<close>

datatype MessageRole = System | User | Assistant | Tool

record Message =
  role :: MessageRole
  content :: string
  timestamp :: "nat option"

record ToolCall =
  tool_id :: string
  tool_name :: string

record TokenUsage =
  promptTokens :: nat
  completionTokens :: nat
  totalTokens :: nat
  cost :: "real option"

datatype ExecutionStatus = Pending | Running | Completed | Failed | Timeout | Cancelled

record ExecutionResult =
  result_id :: string
  status :: ExecutionStatus
  result_output :: string
  toolCalls :: "ToolCall list"
  messages :: "Message list"
  usage :: TokenUsage
  duration :: int
  error :: "string option"

record ExecutionConfig =
  userId :: "string option"
  sessionId :: "string option"
  call_timeout :: "nat option"

record AgentMetrics =
  m_executions :: nat
  m_successes :: nat
  m_failures :: nat
  m_timeouts :: nat
  m_totalDuration :: int
  m_totalTokens :: nat
  m_totalCost :: real
  m_labels :: "(string \<times> string) list"
  m_initialized :: bool

definition AgentMetrics_new :: "(string \<times> string) list \<Rightarrow> AgentMetrics" where
  "AgentMetrics_new ls =
     \<lparr>m_executions = 0, m_successes = 0, m_failures = 0, m_timeouts = 0, m_totalDuration = 0,
      m_totalTokens = 0, m_totalCost = 0, m_labels = ls, m_initialized = False\<rparr>"

definition metrics_initialize :: "AgentMetrics \<Rightarrow> AgentMetrics" where
  "metrics_initialize m = m\<lparr>m_initialized := True\<rparr>"

definition recordExecution :: "ExecutionResult \<Rightarrow> AgentMetrics \<Rightarrow> AgentMetrics" where
  "recordExecution r m =
     (let m1 = m\<lparr>m_executions := m_executions m + 1,
                 m_totalDuration := m_totalDuration m + duration r,
                 m_totalTokens := m_totalTokens m + totalTokens (usage r)\<rparr>;
          m2 = (case cost (usage r) of
                  None \<Rightarrow> m1
                | Some c \<Rightarrow> if c \<noteq> 0 then m1\<lparr>m_totalCost := m_totalCost m1 + c\<rparr> else m1)
      in case status r of
           Completed \<Rightarrow> m2\<lparr>m_successes := m_successes m2 + 1\<rparr>
         | Timeout \<Rightarrow> m2\<lparr>m_timeouts := m_timeouts m2 + 1, m_failures := m_failures m2 + 1\<rparr>
         | Failed \<Rightarrow> m2\<lparr>m_failures := m_failures m2 + 1\<rparr>
         | _ \<Rightarrow> m2)"

section \<open>The agent runtime (runtime.ts)\<close>

text \<open>
  The configuration is the merged one (\<open>{...DEFAULT_CONFIG, ...config}\<close>). Its
  \<open>timeout\<close> is \<open>default_timeout\<close> here and the per-call one \<open>call_timeout\<close>, the
  breaker's configuration having the name \<open>timeout\<close> already; the optional
  \<open>circuitBreaker\<close> and \<open>metrics\<close> sections are \<open>circuitBreaker_options\<close> and
  \<open>metrics_options\<close>, as the runtime has fields of those names. \<open>retry\<close> is read
  with a non-null assertion and is always present.
\<close>

record BreakerOptions = CircuitBreakerConfig +
  enabled :: bool

record MetricsOptions =
  metrics_enabled :: bool
  labels :: "(string \<times> string) list"

record RuntimeConfig =
  model :: string
  temperature :: real
  maxTokens :: int
  maxIterations :: int
  default_timeout :: nat
  stream :: bool
  retry :: RetryConfig
  circuitBreaker_options :: "BreakerOptions option"
  metrics_options :: "MetricsOptions option"

definition DEFAULT_CONFIG :: RuntimeConfig where
  "DEFAULT_CONFIG =
     \<lparr>model = ''gpt-4-turbo-preview'', temperature = 0.7, maxTokens = 4096,
      maxIterations = 10, default_timeout = 60000, stream = False,
      retry = \<lparr>maxRetries = 3, baseDelay = 1000, maxDelay = 30000, factor = 2\<rparr>,
      circuitBreaker_options =
        Some \<lparr>failureThreshold = 5, successThreshold = 2, timeout = 60000, enabled = True\<rparr>,
      metrics_options = Some \<lparr>metrics_enabled = True, labels = []\<rparr>\<rparr>"

record AgentRuntime =
  runtime_config :: RuntimeConfig
  circuitBreaker :: "CircuitBreaker option"
  metrics :: AgentMetrics
  isInitialized :: bool

text \<open>\<open>this.config.metrics?.enabled\<close>\<close>

definition metrics_on :: "RuntimeConfig \<Rightarrow> bool" where
  "metrics_on rc = (case metrics_options rc of None \<Rightarrow> False | Some m \<Rightarrow> metrics_enabled m)"

definition AgentRuntime_new :: "RuntimeConfig \<Rightarrow> AgentRuntime" where
  "AgentRuntime_new rc =
     \<lparr>runtime_config = rc,
      circuitBreaker =
        (case circuitBreaker_options rc of
           None \<Rightarrow> None
         | Some opts \<Rightarrow>
             if enabled opts then
               Some (CircuitBreaker_new
                 \<lparr>failureThreshold = failureThreshold opts,
                  successThreshold = successThreshold opts,
                  timeout = timeout opts\<rparr>)
             else None),
      metrics =
        AgentMetrics_new (case metrics_options rc of None \<Rightarrow> [] | Some m \<Rightarrow> labels m),
      isInitialized = False\<rparr>"

text \<open>\<open>validateConfig\<close> returns the error it throws, if any.\<close>

definition validateConfig :: "RuntimeConfig \<Rightarrow> AgentErrorObject option" where
  "validateConfig rc =
     (if temperature rc < 0 \<or> temperature rc > 2 then
        Some (AgentError_new ''Temperature must be between 0 and 2'' ''INVALID_CONFIG'' False)
      else if maxTokens rc < 1 \<or> maxTokens rc > 128000 then
        Some (AgentError_new ''maxTokens must be between 1 and 128000'' ''INVALID_CONFIG'' False)
      else if maxIterations rc < 1 \<or> maxIterations rc > 100 then
        Some (AgentError_new ''maxIterations must be between 1 and 100'' ''INVALID_CONFIG'' False)
      else None)"

text \<open>
  The runtime is an event emitter, and no listener is registered in this development.
  An emitted event then changes nothing, with one exception: an emitter that has no
  listener for \<open>error\<close> throws, from \<open>emit('error', payload)\<close> itself, an error of its
  own (code \<open>ERR_UNHANDLED_ERROR\<close>) that carries the payload. \<open>initialize\<close> catches
  what \<open>validateConfig\<close> threw and emits \<open>error\<close> with it before rethrowing it, so what
  \<open>initialize\<close> raises (\<open>Inl\<close>) is the emitter's error about the validation error.
  Only the events of \<open>execute\<close> and of its retry loop are recorded.
\<close>

datatype Raised = ERR_UNHANDLED_ERROR Thrown

definition initialize :: "AgentRuntime \<Rightarrow> Raised + AgentRuntime" where
  "initialize rt =
     (if isInitialized rt then Inr rt
      else case validateConfig (runtime_config rt) of
             Some err \<Rightarrow> Inl (ERR_UNHANDLED_ERROR (Agent err))
           | None \<Rightarrow>
               Inr ((if metrics_on (runtime_config rt)
                     then rt\<lparr>metrics := metrics_initialize (metrics rt)\<rparr> else rt)
                    \<lparr>isInitialized := True\<rparr>))"

definition estimateTokens :: "Message list \<Rightarrow> nat" where
  "estimateTokens msgs = foldl (\<lambda>sum msg. sum + (length (content msg) + 3) div 4) 0 msgs"

text \<open>
  \<open>executeCore\<close> is a placeholder in the source (it "would integrate with actual LLM
  providers"): it returns at once a result made from the transcript. The retry loop
  and \<open>execute\<close> are therefore given the backend as an argument, \<open>core n msgs\<close> being
  how call number \<open>n\<close> settles; \<open>executeCore\<close> with the identifiers it generates is
  the backend of the source.
\<close>

definition executeCore :: "(nat \<Rightarrow> string) \<Rightarrow> nat \<Rightarrow> Message list \<Rightarrow> ExecutionResult Outcome" where
  "executeCore generateId n msgs =
     Resolves 0
       \<lparr>result_id = generateId n, status = Completed,
        result_output = ''Processed: '' @ (if msgs = [] then [] else content (last msgs)),
        toolCalls = [], messages = msgs,
        usage = \<lparr>promptTokens = estimateTokens msgs, completionTokens = 50,
                 totalTokens = estimateTokens msgs + 50, cost = None\<rparr>,
        duration = 0, error = None\<rparr>"

function executeWithRetry_loop ::
  "(nat \<Rightarrow> Message list \<Rightarrow> ExecutionResult Outcome) \<Rightarrow> RetryConfig \<Rightarrow> (nat \<Rightarrow> real) \<Rightarrow>
   Message list \<Rightarrow> nat \<Rightarrow> Thrown option \<Rightarrow> ExecutionResult Run"
where
  "executeWithRetry_loop core rc rnd msgs attempt lastError =
     (if attempt \<le> maxRetries rc then
        (case core attempt msgs of
           Resolves d r \<Rightarrow>
             \<lparr>trace = [Emit (Ev_execution_attempt attempt (maxRetries rc)), Call attempt],
              outcome = Resolves d r\<rparr>
         | NeverSettles \<Rightarrow>
             \<lparr>trace = [Emit (Ev_execution_attempt attempt (maxRetries rc)), Call attempt],
              outcome = NeverSettles\<rparr>
         | Rejects d err \<Rightarrow>
             (if non_retryable err then
                \<lparr>trace = [Emit (Ev_execution_attempt attempt (maxRetries rc)), Call attempt],
                 outcome = Rejects d err\<rparr>
              else if attempt = maxRetries rc then
                \<lparr>trace = [Emit (Ev_execution_attempt attempt (maxRetries rc)), Call attempt],
                 outcome = Rejects d (throw_lastError (Some (as_Error err)))\<rparr>
              else
                (let delay = calculateDelay (rnd attempt) attempt rc in
                 preceded
                   [Emit (Ev_execution_attempt attempt (maxRetries rc)), Call attempt,
                    ComputeDelay attempt delay,
                    Emit (Ev_execution_retry attempt delay (error_text (as_Error err))),
                    Sleep delay]
                   (d + timer_ms delay)
                   (executeWithRetry_loop core rc rnd msgs (attempt + 1) (Some (as_Error err))))))
      else \<lparr>trace = [], outcome = Rejects 0 (throw_lastError lastError)\<rparr>)"
  by pat_completeness auto
termination
  by (relation "measure (\<lambda>(core, rc, rnd, msgs, attempt, lastError). maxRetries rc + 1 - attempt)")
     auto

definition executeWithRetry ::
  "(nat \<Rightarrow> Message list \<Rightarrow> ExecutionResult Outcome) \<Rightarrow> RetryConfig \<Rightarrow> (nat \<Rightarrow> real) \<Rightarrow>
   Message list \<Rightarrow> ExecutionResult Run" where
  "executeWithRetry core rc rnd msgs = executeWithRetry_loop core rc rnd msgs 0 None"

text \<open>
  What \<open>execute\<close> takes from its environment: the identifier \<open>generateId()\<close>
  returns, the clock at each place the source reads it (\<open>startTime\<close>, the two message
  timestamps, the read inside \<open>isOpen\<close>, the read inside \<open>recordFailure\<close>, and the
  read of the \<open>finally\<close> block), the backend, and the random numbers of the backoff.
  No relation between the readings is assumed. When the retried call settles in the
  very millisecond in which the deadline timer is due, which of the two callbacks the
  event loop runs first depends on how the backend settles (through a timer created
  before or after the deadline timer, or through input and output); it is taken from
  the environment as \<open>deadline_first\<close>.
\<close>

record Env =
  new_id :: string
  t_start :: nat
  t_system :: nat
  t_user :: nat
  t_check :: nat
  t_record :: nat
  t_end :: nat
  backend :: "nat \<Rightarrow> Message list \<Rightarrow> ExecutionResult Outcome"
  random :: "nat \<Rightarrow> real"
  deadline_first :: bool

text \<open>\<open>config.timeout || this.config.timeout\<close>\<close>

definition effective_timeout :: "ExecutionConfig \<Rightarrow> RuntimeConfig \<Rightarrow> nat" where
  "effective_timeout cfg rc =
     (if truthy (call_timeout cfg) then the (call_timeout cfg) else default_timeout rc)"

text \<open>
  \<open>Promise.race([executionPromise, timeoutPromise])\<close>: the deadline is a timer of
  \<open>ms\<close> milliseconds that rejects with an \<open>AgentTimeoutError\<close>. The retried call wins
  the race when it settles before the timer is due, or in the same millisecond with its
  callback run first. The retried call is not cancelled when it loses.
\<close>

definition settles_first :: "bool \<Rightarrow> nat \<Rightarrow> real \<Rightarrow> bool" where
  "settles_first timer_first ms d =
     (d < timer_ms (real ms) \<or> (d = timer_ms (real ms) \<and> \<not> timer_first))"

definition race :: "bool \<Rightarrow> nat \<Rightarrow> 'a Outcome \<Rightarrow> Thrown + 'a" where
  "race timer_first ms out =
     (case out of
        Resolves d v \<Rightarrow>
          if settles_first timer_first ms d then Inr v
          else Inl (Agent (AgentTimeoutError_new ''execution'' ms))
      | Rejects d e \<Rightarrow>
          if settles_first timer_first ms d then Inl e
          else Inl (Agent (AgentTimeoutError_new ''execution'' ms))
      | NeverSettles \<Rightarrow> Inl (Agent (AgentTimeoutError_new ''execution'' ms)))"

text \<open>
  What \<open>execute\<close> returns when it does not raise: the result, the runtime after the
  call, the events \<open>execute\<close> itself emitted, and the trace of the retried backend call.
\<close>

record Executed =
  result :: ExecutionResult
  runtime :: AgentRuntime
  events :: "Event list"
  backend_trace :: "Effect list"

text \<open>The \<open>catch\<close> block of \<open>execute\<close>.\<close>

definition catch_block ::
  "Env \<Rightarrow> string \<Rightarrow> Thrown \<Rightarrow> ExecutionResult \<times> AgentRuntime \<times> Event list \<Rightarrow>
   ExecutionResult \<times> AgentRuntime \<times> Event list" where
  "catch_block env executionId err st =
     (case st of (res, rt, evs) \<Rightarrow>
        (res\<lparr>status := (if instanceof_AgentTimeoutError err then Timeout else Failed),
             error := Some (error_text err)\<rparr>,
         rt\<lparr>circuitBreaker := map_option (recordFailure (t_record env)) (circuitBreaker rt)\<rparr>,
         evs @ [Ev_execution_error executionId err]))"

text \<open>The \<open>finally\<close> block of \<open>execute\<close>, and its \<open>return result\<close>.\<close>

definition finally_block ::
  "Env \<Rightarrow> Message list \<Rightarrow> Effect list \<Rightarrow> ExecutionResult \<times> AgentRuntime \<times> Event list \<Rightarrow>
   Executed" where
  "finally_block env msgs effs st =
     (case st of (res, rt, evs) \<Rightarrow>
        (let res' = res\<lparr>duration := int (t_end env) - int (t_start env), messages := msgs\<rparr>
         in \<lparr>result = res',
             runtime = (if metrics_on (runtime_config rt)
                        then rt\<lparr>metrics := recordExecution res' (metrics rt)\<rparr> else rt),
             events = evs, backend_trace = effs\<rparr>))"

text \<open>The transcript and the result record \<open>execute\<close> starts from.\<close>

definition initial_messages :: "string \<Rightarrow> Env \<Rightarrow> Message list" where
  "initial_messages task env =
     [\<lparr>role = System, content = ''You are a helpful AI assistant.'',
        timestamp = Some (t_system env)\<rparr>,
      \<lparr>role = User, content = task, timestamp = Some (t_user env)\<rparr>]"

definition initial_result :: "string \<Rightarrow> Message list \<Rightarrow> ExecutionResult" where
  "initial_result executionId msgs =
     \<lparr>result_id = executionId, status = Pending, result_output = [], toolCalls = [],
      messages = msgs,
      usage = \<lparr>promptTokens = 0, completionTokens = 0, totalTokens = 0, cost = None\<rparr>,
      duration = 0, error = None\<rparr>"

text \<open>
  \<open>this.circuitBreaker?.isOpen()\<close>: its value (false without a breaker), and the
  runtime after the lazy check the call may have made.
\<close>

definition circuit_rejects :: "AgentRuntime \<Rightarrow> Env \<Rightarrow> bool" where
  "circuit_rejects rt env =
     (case circuitBreaker rt of None \<Rightarrow> False | Some b \<Rightarrow> fst (isOpen (t_check env) b))"

definition after_check :: "AgentRuntime \<Rightarrow> Env \<Rightarrow> AgentRuntime" where
  "after_check rt env =
     rt\<lparr>circuitBreaker := map_option (\<lambda>b. snd (isOpen (t_check env) b)) (circuitBreaker rt)\<rparr>"

text \<open>\<open>this.executeWithRetry(messages, config)\<close> as \<open>execute\<close> calls it.\<close>

definition retried_call :: "AgentRuntime \<Rightarrow> string \<Rightarrow> Env \<Rightarrow> ExecutionResult Run" where
  "retried_call rt task env =
     executeWithRetry (backend env) (retry (runtime_config rt)) (random env)
       (initial_messages task env)"

definition execute :: "AgentRuntime \<Rightarrow> string \<Rightarrow> ExecutionConfig \<Rightarrow> Env \<Rightarrow> Raised + Executed" where
  "execute rt0 task cfg env =
     (case initialize rt0 of
        Inl err \<Rightarrow> Inl err
      | Inr rt \<Rightarrow>
          (let executionId = new_id env;
               ms = effective_timeout cfg (runtime_config rt);
               msgs = initial_messages task env;
               res = initial_result executionId msgs;
               rt1 = after_check rt env
           in
             Inr (if circuit_rejects rt env then
               finally_block env msgs []
                 (catch_block env executionId
                    (Agent (AgentError_new ''Circuit breaker is open'' ''CIRCUIT_OPEN'' False))
                    (res, rt1, []))
             else
               (let run = retried_call rt task env;
                    started = (res\<lparr>status := Running\<rparr>, rt1, [Ev_execution_start executionId task])
                in finally_block env msgs (trace run)
                     (case race (deadline_first env) ms (outcome run) of
                        Inr executionResult \<Rightarrow>
                          (res\<lparr>result_output := result_output executionResult,
                               toolCalls := toolCalls executionResult,
                               messages := messages executionResult,
                               usage := usage executionResult,
                               status := Completed\<rparr>,
                           rt1\<lparr>circuitBreaker := map_option recordSuccess (circuitBreaker rt1)\<rparr>,
                           [Ev_execution_start executionId task, Ev_execution_complete executionId])
                      | Inl err \<Rightarrow> catch_block env executionId err started)))))"

text \<open>The status of the result \<open>execute\<close> returned, if it returned one.\<close>

definition returned_status :: "Raised + Executed \<Rightarrow> ExecutionStatus option" where
  "returned_status r = (case r of Inl err \<Rightarrow> None | Inr ex \<Rightarrow> Some (status (result ex)))"

text \<open>The breaker of the repository's own tests: three failures open it, two successes
  close it, and it stays open for one second.\<close>

definition cfg3 :: CircuitBreakerConfig where
  "cfg3 = \<lparr>failureThreshold = 3, successThreshold = 2, timeout = 1000\<rparr>"

text \<open>Breakers of that configuration: after two failures, and half-open after three
  failures and a query once the second has passed.\<close>

definition closed2 :: CircuitBreaker where
  "closed2 = fold recordFailure [10, 20] (CircuitBreaker_new cfg3)"

definition half_open3 :: CircuitBreaker where
  "half_open3 = snd (getState 1030 (fold recordFailure [10, 20, 30] (CircuitBreaker_new cfg3)))"

text \<open>The breakers a sequence of method calls can produce from a new one.\<close>

inductive reachable :: "CircuitBreakerConfig \<Rightarrow> CircuitBreaker \<Rightarrow> bool" for cfg where
  r_new: "reachable cfg (CircuitBreaker_new cfg)"
| r_isOpen: "reachable cfg b \<Longrightarrow> reachable cfg (snd (isOpen now b))"
| r_getState: "reachable cfg b \<Longrightarrow> reachable cfg (snd (getState now b))"
| r_recordSuccess: "reachable cfg b \<Longrightarrow> reachable cfg (recordSuccess b)"
| r_recordFailure: "reachable cfg b \<Longrightarrow> reachable cfg (recordFailure now b)"
| r_reset: "reachable cfg b \<Longrightarrow> reachable cfg (reset b)"

declare withRetry_loop.simps [simp del] executeWithRetry_loop.simps [simp del]

section \<open>Concrete runtimes, environments and backends\<close>

text \<open>
  Inputs at which the theorems below are evaluated: a call with no per-call override;
  the runtime of the default configuration, before and after \<open>initialize\<close>; a runtime
  whose breaker has the configuration of the tests and a given state; an environment
  whose call starts at \<open>t\<close> and ends \<open>elapsed\<close> milliseconds later, with no jitter and
  with the deadline timer first in a tie; and
  four backends: that of the source, one that answers as the source's after 5 ms, one
  that never settles, and one that rejects after 5 ms with a retryable timeout error of
  its own.
\<close>

definition no_overrides :: ExecutionConfig where
  "no_overrides = \<lparr>userId = None, sessionId = None, call_timeout = None\<rparr>"

definition test_config :: RuntimeConfig where
  "test_config = DEFAULT_CONFIG\<lparr>circuitBreaker_options :=
     Some \<lparr>failureThreshold = 3, successThreshold = 2, timeout = 1000, enabled = True\<rparr>\<rparr>"

definition runtime_with :: "CircuitBreaker \<Rightarrow> AgentRuntime" where
  "runtime_with b = (AgentRuntime_new test_config)\<lparr>circuitBreaker := Some b\<rparr>"

definition env_at :: "nat \<Rightarrow> nat \<Rightarrow> (nat \<Rightarrow> Message list \<Rightarrow> ExecutionResult Outcome) \<Rightarrow> Env" where
  "env_at t elapsed core =
     \<lparr>new_id = ''exec_1'', t_start = t, t_system = t, t_user = t, t_check = t,
      t_record = t + elapsed, t_end = t + elapsed, backend = core, random = (\<lambda>n. 0),
      deadline_first = True\<rparr>"

definition source_backend :: "nat \<Rightarrow> Message list \<Rightarrow> ExecutionResult Outcome" where
  "source_backend = executeCore (\<lambda>n. ''exec_2'')"

definition slow_backend :: "nat \<Rightarrow> Message list \<Rightarrow> ExecutionResult Outcome" where
  "slow_backend n msgs = later 5 (source_backend n msgs)"

definition hanging_backend :: "nat \<Rightarrow> Message list \<Rightarrow> ExecutionResult Outcome" where
  "hanging_backend n msgs = NeverSettles"

definition default_runtime :: AgentRuntime where
  "default_runtime = AgentRuntime_new DEFAULT_CONFIG"

definition default_initialized :: AgentRuntime where
  "default_initialized =
     default_runtime\<lparr>metrics := metrics_initialize (metrics default_runtime),
                      isInitialized := True\<rparr>"

definition breaker_after :: "Raised + Executed \<Rightarrow> CircuitBreaker option" where
  "breaker_after r = (case r of Inl err \<Rightarrow> None | Inr ex \<Rightarrow> circuitBreaker (runtime ex))"

definition timing_out_backend :: "nat \<Rightarrow> Message list \<Rightarrow> ExecutionResult Outcome" where
  "timing_out_backend n msgs = Rejects 5 (Agent (AgentTimeoutError_new ''completion'' 5000))"

text \<open>
  The breaker of the tests after it opened, became half-open, saw one success and then
  one failure; an operation and a backend that always reject after 5 ms with a
  non-retryable error; and a retry configuration with a single retry.
\<close>

definition reopened1 :: CircuitBreaker where
  "reopened1 = recordFailure 1040 (recordSuccess half_open3)"

definition always_bad :: "nat \<Rightarrow> unit Outcome" where
  "always_bad n = Rejects 5 (Agent (AgentError_new ''bad'' ''BAD'' False))"

definition bad_backend :: "nat \<Rightarrow> Message list \<Rightarrow> ExecutionResult Outcome" where
  "bad_backend n msgs = Rejects 5 (Agent (AgentError_new ''bad'' ''BAD'' False))"

definition quick_retry :: RetryConfig where
  "quick_retry = \<lparr>maxRetries = 1, baseDelay = 100, maxDelay = 1000, factor = 2\<rparr>"

section \<open>Properties of the circuit breaker\<close>


lemma recordSuccess_config: "config (recordSuccess b) = config b"
  by (simp add: recordSuccess_def Let_def)

lemma fold_recordFailure_closed:
  "state b = Closed \<Longrightarrow> failures b + length ts < failureThreshold (config b) \<Longrightarrow>
   state (fold recordFailure ts b) = Closed \<and>
   failures (fold recordFailure ts b) = failures b + length ts \<and>
   config (fold recordFailure ts b) = config b"
proof (induction ts arbitrary: b)
  case Nil
  then show ?case by simp
next
  case (Cons t ts)
  let ?b1 = "recordFailure t b"
  from Cons.prems have s: "state ?b1 = Closed" and f: "failures ?b1 = failures b + 1"
    and c: "config ?b1 = config b"
    by (simp_all add: recordFailure_def setNextAttemptTime_def Let_def)
  from Cons.prems f c have "failures ?b1 + length ts < failureThreshold (config ?b1)" by simp
  from Cons.IH[OF s this] f c show ?case by simp
qed

lemma recordFailure_reaches_threshold:
  "state b = Closed \<Longrightarrow> failures b + 1 = failureThreshold (config b) \<Longrightarrow>
   state (recordFailure now b) = Open \<and>
   nextAttemptTime (recordFailure now b) = Some (now + timeout (config b))"
  by (simp add: recordFailure_def setNextAttemptTime_def Let_def)

text \<open>
  C6. With a positive \<open>failureThreshold = N\<close>, from a closed breaker whose failure
  counter is zero, any \<open>N\<close> consecutive calls of \<open>recordFailure\<close> (whatever the clock
  reads at each) leave the breaker open, and any shorter run of calls, \<open>N - 1\<close> among
  them, leaves it closed.
\<close>

theorem breaker_opens_after_threshold_failures:
  assumes "state b = Closed" and "failures b = 0" and "0 < failureThreshold (config b)"
  shows "(length ts = failureThreshold (config b) \<longrightarrow> state (fold recordFailure ts b) = Open) \<and>
         (length ts < failureThreshold (config b) \<longrightarrow> state (fold recordFailure ts b) = Closed)"
proof (intro conjI impI)
  assume len: "length ts = failureThreshold (config b)"
  with assms(3) obtain us t where ts: "ts = us @ [t]"
    by (cases ts rule: rev_cases) auto
  let ?b1 = "fold recordFailure us b"
  from len ts assms have "failures b + length us < failureThreshold (config b)" by simp
  from fold_recordFailure_closed[OF assms(1) this] assms(2) len ts
  have "state ?b1 = Closed" "failures ?b1 + 1 = failureThreshold (config ?b1)" by simp_all
  from recordFailure_reaches_threshold[OF this] show "state (fold recordFailure ts b) = Open"
    by (simp add: ts)
next
  assume "length ts < failureThreshold (config b)"
  with assms fold_recordFailure_closed[of b ts] show "state (fold recordFailure ts b) = Closed"
    by simp
qed

theorem breaker_opens_after_threshold_failures_witness:
  "state (CircuitBreaker_new cfg3) = Closed \<and> failures (CircuitBreaker_new cfg3) = 0 \<and>
   0 < failureThreshold (config (CircuitBreaker_new cfg3)) \<and>
   length [10, 20, 30 :: nat] = failureThreshold (config (CircuitBreaker_new cfg3)) \<and>
   state (fold recordFailure [10, 20, 30] (CircuitBreaker_new cfg3)) = Open \<and>
   length [10, 20 :: nat] < failureThreshold (config (CircuitBreaker_new cfg3)) \<and>
   state (fold recordFailure [10, 20] (CircuitBreaker_new cfg3)) = Closed"
proof -
  have h: "state (CircuitBreaker_new cfg3) = Closed" "failures (CircuitBreaker_new cfg3) = 0"
    "0 < failureThreshold (config (CircuitBreaker_new cfg3))"
    and n: "failureThreshold (config (CircuitBreaker_new cfg3)) = 3"
    by (simp_all add: CircuitBreaker_new_def cfg3_def)
  from breaker_opens_after_threshold_failures[OF h, of "[10, 20, 30]"]
       breaker_opens_after_threshold_failures[OF h, of "[10, 20]"] h n
  show ?thesis by simp
qed


lemmas breaker_defs = recordSuccess_def recordFailure_def setNextAttemptTime_def
  getState_def isOpen_def reset_def Let_def

lemma closed2_eq:
  "closed2 = \<lparr>config = cfg3, state = Closed, failures = 2, successes = 0,
     lastFailureTime = Some 20, nextAttemptTime = None\<rparr>"
  by (simp add: closed2_def breaker_defs CircuitBreaker_new_def cfg3_def)

lemma opened3_eq:
  "recordFailure 30 closed2 = \<lparr>config = cfg3, state = Open, failures = 3, successes = 0,
     lastFailureTime = Some 30, nextAttemptTime = Some 1030\<rparr>"
  by (simp add: closed2_eq breaker_defs cfg3_def)

lemma half_open3_eq:
  "half_open3 = \<lparr>config = cfg3, state = HalfOpen, failures = 3, successes = 0,
     lastFailureTime = Some 30, nextAttemptTime = None\<rparr>"
  by (simp add: half_open3_def breaker_defs CircuitBreaker_new_def cfg3_def)

text \<open>
  C2 as stated fails: \<open>recordSuccess\<close> begins by clearing the failure counter, in every
  state. After three failures the breaker of the tests is open with three failures
  counted, and \<open>recordSuccess\<close> leaves none.
\<close>

theorem recordSuccess_while_open_counterexample:
  "state (fold recordFailure [10, 20, 30] (CircuitBreaker_new cfg3)) = Open \<and>
   failures (fold recordFailure [10, 20, 30] (CircuitBreaker_new cfg3)) = 3 \<and>
   failures (recordSuccess (fold recordFailure [10, 20, 30] (CircuitBreaker_new cfg3))) = 0"
  by (simp add: breaker_defs CircuitBreaker_new_def cfg3_def)

text \<open>
  C2, amended. While the breaker is open, \<open>recordSuccess\<close> resets the failure counter to
  zero and changes nothing else: the state, the success counter, the next-attempt
  deadline and the last-failure time are as before.
\<close>

theorem recordSuccess_while_open:
  "state b = Open \<Longrightarrow> recordSuccess b = b\<lparr>failures := 0\<rparr>"
  by (simp add: recordSuccess_def Let_def)

theorem recordSuccess_while_open_witness:
  "state (fold recordFailure [10, 20, 30] (CircuitBreaker_new cfg3)) = Open \<and>
   recordSuccess (fold recordFailure [10, 20, 30] (CircuitBreaker_new cfg3)) =
   (fold recordFailure [10, 20, 30] (CircuitBreaker_new cfg3))\<lparr>failures := 0\<rparr>"
proof -
  have h: "state (fold recordFailure [10, 20, 30] (CircuitBreaker_new cfg3)) = Open"
    by (simp add: breaker_defs CircuitBreaker_new_def cfg3_def)
  from h recordSuccess_while_open[OF h] show ?thesis by simp
qed

lemma recordSuccess_half_open_below:
  "state c = HalfOpen \<Longrightarrow> successes c + 1 < successThreshold (config c) \<Longrightarrow>
   state (recordSuccess c) = HalfOpen \<and> successes (recordSuccess c) = successes c + 1"
  by (simp add: recordSuccess_def Let_def)

lemma recordSuccess_half_open_reach:
  "state c = HalfOpen \<Longrightarrow> successThreshold (config c) \<le> successes c + 1 \<Longrightarrow>
   state (recordSuccess c) = Closed \<and> successes (recordSuccess c) = 0"
  by (simp add: recordSuccess_def Let_def)

lemma recordSuccess_closed: "state c = Closed \<Longrightarrow> state (recordSuccess c) = Closed"
  by (simp add: recordSuccess_def Let_def)

lemma funpow_recordSuccess_config: "config ((recordSuccess ^^ k) b) = config b"
  by (induction k) (simp_all add: recordSuccess_config)

lemma funpow_recordSuccess_half_open:
  "state b = HalfOpen \<Longrightarrow> successes b + k < successThreshold (config b) \<Longrightarrow>
   state ((recordSuccess ^^ k) b) = HalfOpen \<and>
   successes ((recordSuccess ^^ k) b) = successes b + k"
proof (induction k)
  case 0
  then show ?case by simp
next
  case (Suc k)
  let ?c = "(recordSuccess ^^ k) b"
  from Suc have c: "state ?c = HalfOpen" "successes ?c = successes b + k" by simp_all
  with Suc.prems have "successes ?c + 1 < successThreshold (config ?c)"
    by (simp add: funpow_recordSuccess_config)
  from recordSuccess_half_open_below[OF c(1) this] c(2) show ?case by simp
qed

lemma funpow_recordSuccess_closed:
  "state b = Closed \<Longrightarrow> state ((recordSuccess ^^ k) b) = Closed"
  by (induction k) (simp_all add: recordSuccess_closed)

lemma funpow_recordSuccess_closes:
  "state b = HalfOpen \<Longrightarrow> 0 < k \<Longrightarrow> successThreshold (config b) \<le> successes b + k \<Longrightarrow>
   state ((recordSuccess ^^ k) b) = Closed"
proof (induction k arbitrary: b)
  case 0
  then show ?case by simp
next
  case (Suc k)
  have step: "(recordSuccess ^^ Suc k) b = (recordSuccess ^^ k) (recordSuccess b)"
    by (simp add: funpow_swap1)
  show ?case
  proof (cases "successThreshold (config b) \<le> successes b + 1")
    case True
    with Suc.prems have "state (recordSuccess b) = Closed"
      by (simp add: recordSuccess_half_open_reach)
    then show ?thesis unfolding step by (rule funpow_recordSuccess_closed)
  next
    case False
    with Suc.prems have s: "state (recordSuccess b) = HalfOpen"
      and n: "successes (recordSuccess b) = successes b + 1"
      by (simp_all add: recordSuccess_half_open_below)
    from False Suc.prems have "0 < k" by (cases k) auto
    moreover from Suc.prems n
    have "successThreshold (config (recordSuccess b)) \<le> successes (recordSuccess b) + k"
      by (simp add: recordSuccess_config)
    ultimately show ?thesis unfolding step using Suc.IH[OF s] by simp
  qed
qed

lemma reachable_successes:
  "reachable cfg b \<Longrightarrow> state b \<noteq> HalfOpen \<Longrightarrow> successes b = 0"
  by (induction rule: reachable.induct)
     (auto simp: CircuitBreaker_new_def breaker_defs split: if_splits)

lemma reachable_enters_half_open:
  "reachable cfg b \<Longrightarrow> state b = Open \<Longrightarrow> successes (snd (getState now b)) = 0"
  using reachable_successes[of cfg b] by (simp add: getState_def)

text \<open>
  C7. From a half-open breaker, \<open>successThreshold = M\<close> consecutive calls of
  \<open>recordSuccess\<close> (\<open>M\<close> positive) leave it closed; counted from a zero success
  counter, which is what a breaker has when it enters half-open (lemma
  \<open>reachable_enters_half_open\<close>), fewer than \<open>M\<close> calls leave it half-open. A single
  \<open>recordFailure\<close> on a half-open breaker opens it, whatever \<open>failureThreshold\<close> and the
  failure counter are, resets the success counter and schedules the next attempt.
\<close>

theorem half_open_transitions:
  assumes "state b = HalfOpen"
  shows "(0 < successThreshold (config b) \<longrightarrow>
            state ((recordSuccess ^^ successThreshold (config b)) b) = Closed) \<and>
         (successes b = 0 \<longrightarrow>
            (\<forall>k < successThreshold (config b). state ((recordSuccess ^^ k) b) = HalfOpen)) \<and>
         state (recordFailure now b) = Open \<and>
         successes (recordFailure now b) = 0 \<and>
         nextAttemptTime (recordFailure now b) = Some (now + timeout (config b))"
proof (intro conjI impI allI)
  assume "0 < successThreshold (config b)"
  with assms show "state ((recordSuccess ^^ successThreshold (config b)) b) = Closed"
    by (intro funpow_recordSuccess_closes) simp_all
next
  fix k assume "successes b = 0" "k < successThreshold (config b)"
  with assms funpow_recordSuccess_half_open[of b k]
  show "state ((recordSuccess ^^ k) b) = HalfOpen" by simp
qed (use assms in \<open>simp_all add: recordFailure_def setNextAttemptTime_def Let_def\<close>)

theorem half_open_transitions_witness:
  "state half_open3 = HalfOpen \<and> successes half_open3 = 0 \<and>
   state (recordSuccess (recordSuccess half_open3)) = Closed \<and>
   state (recordSuccess half_open3) = HalfOpen \<and>
   state (recordFailure 1040 (recordSuccess half_open3)) = Open \<and>
   successes (recordFailure 1040 (recordSuccess half_open3)) = 0"
proof -
  have h: "state half_open3 = HalfOpen" and z: "successes half_open3 = 0"
    and m: "successThreshold (config half_open3) = 2"
    by (simp_all add: half_open3_eq cfg3_def)
  have h1: "state (recordSuccess half_open3) = HalfOpen"
    using half_open_transitions[OF h, of 0] z m by (auto simp: numeral_2_eq_2 less_Suc_eq)
  have c: "state (recordSuccess (recordSuccess half_open3)) = Closed"
    using half_open_transitions[OF h, of 0] m by (simp add: numeral_2_eq_2)
  from half_open_transitions[OF h1, of 1040] h z h1 c show ?thesis by simp
qed


section \<open>Properties of the runtime\<close>

declare show_nat.simps [simp del]

lemma finally_block_result:
  "result (finally_block env msgs effs st) =
     (fst st)\<lparr>duration := int (t_end env) - int (t_start env), messages := msgs\<rparr>"
  by (cases st) (simp add: finally_block_def Let_def)

lemma finally_block_trace: "backend_trace (finally_block env msgs effs st) = effs"
  by (cases st) (simp add: finally_block_def Let_def)

lemma finally_block_events: "events (finally_block env msgs effs st) = snd (snd st)"
  by (cases st) (simp add: finally_block_def Let_def)

lemma finally_block_breaker:
  "circuitBreaker (runtime (finally_block env msgs effs st)) = circuitBreaker (fst (snd st))"
  by (cases st) (simp add: finally_block_def Let_def)

lemma catch_block_result:
  "fst (catch_block env executionId err st) =
     (fst st)\<lparr>status := (if instanceof_AgentTimeoutError err then Timeout else Failed),
              error := Some (error_text err)\<rparr>"
  by (cases st) (simp add: catch_block_def)

lemma catch_block_breaker:
  "circuitBreaker (fst (snd (catch_block env executionId err st))) =
     map_option (recordFailure (t_record env)) (circuitBreaker (fst (snd st)))"
  by (cases st) (simp add: catch_block_def)

lemma catch_block_events:
  "snd (snd (catch_block env executionId err st)) =
     snd (snd st) @ [Ev_execution_error executionId err]"
  by (cases st) (simp add: catch_block_def)

lemma initialize_raises:
  "(\<exists>err. initialize rt0 = Inl err) \<longleftrightarrow>
   (\<not> isInitialized rt0 \<and> validateConfig (runtime_config rt0) \<noteq> None)"
  by (auto simp: initialize_def split: option.splits)

lemma initialize_config:
  "initialize rt0 = Inr rt \<Longrightarrow>
   runtime_config rt = runtime_config rt0 \<and> circuitBreaker rt = circuitBreaker rt0"
  by (auto simp: initialize_def split: if_splits option.splits)


lemma execute_rejected:
  assumes "initialize rt0 = Inr rt" and "circuit_rejects rt env"
  shows "execute rt0 task cfg env =
     Inr (finally_block env (initial_messages task env) []
            (catch_block env (new_id env)
               (Agent (AgentError_new ''Circuit breaker is open'' ''CIRCUIT_OPEN'' False))
               (initial_result (new_id env) (initial_messages task env), after_check rt env, [])))"
  using assms by (simp add: execute_def Let_def)

lemma execute_attempted:
  assumes "initialize rt0 = Inr rt" and "\<not> circuit_rejects rt env"
  shows "execute rt0 task cfg env =
     Inr (finally_block env (initial_messages task env) (trace (retried_call rt task env))
            (case race (deadline_first env) (effective_timeout cfg (runtime_config rt))
                    (outcome (retried_call rt task env)) of
               Inr executionResult \<Rightarrow>
                 ((initial_result (new_id env) (initial_messages task env))
                    \<lparr>result_output := result_output executionResult,
                     toolCalls := toolCalls executionResult,
                     messages := messages executionResult,
                     usage := usage executionResult,
                     status := Completed\<rparr>,
                  (after_check rt env)
                    \<lparr>circuitBreaker := map_option recordSuccess (circuitBreaker (after_check rt env))\<rparr>,
                  [Ev_execution_start (new_id env) task, Ev_execution_complete (new_id env)])
             | Inl err \<Rightarrow>
                 catch_block env (new_id env) err
                   ((initial_result (new_id env) (initial_messages task env))\<lparr>status := Running\<rparr>,
                    after_check rt env, [Ev_execution_start (new_id env) task])))"
  using assms by (simp add: execute_def Let_def)

lemma execute_status:
  assumes "initialize rt0 = Inr rt"
  shows "returned_status (execute rt0 task cfg env) =
     Some (if circuit_rejects rt env then Failed
           else case race (deadline_first env) (effective_timeout cfg (runtime_config rt))
                       (outcome (retried_call rt task env)) of
                  Inr r \<Rightarrow> Completed
                | Inl err \<Rightarrow> if instanceof_AgentTimeoutError err then Timeout else Failed)"
proof (cases "circuit_rejects rt env")
  case True
  from execute_rejected[OF assms True] True show ?thesis
    by (simp add: returned_status_def finally_block_result catch_block_result AgentError_new_def)
next
  case False
  from execute_attempted[OF assms False] False show ?thesis
    by (simp add: returned_status_def finally_block_result catch_block_result split: sum.splits)
qed

lemma execute_duration:
  assumes "execute rt0 task cfg env = Inr ex"
  shows "duration (result ex) = int (t_end env) - int (t_start env)"
proof -
  from assms obtain rt where i: "initialize rt0 = Inr rt"
    by (cases "initialize rt0") (simp_all add: execute_def)
  show ?thesis
  proof (cases "circuit_rejects rt env")
    case True
    from execute_rejected[OF i True, of task cfg] assms show ?thesis
      by (auto simp: finally_block_result)
  next
    case False
    from execute_attempted[OF i False, of task cfg] assms show ?thesis
      by (auto simp: finally_block_result)
  qed
qed

lemma name_AgentTimeoutError_new [simp]:
  "name (AgentTimeoutError_new operation ms) = AgentTimeoutError"
  by (simp add: AgentTimeoutError_new_def)

lemma initialize_default: "initialize default_runtime = Inr default_initialized"
  by (simp add: initialize_def default_initialized_def default_runtime_def AgentRuntime_new_def
      DEFAULT_CONFIG_def validateConfig_def metrics_on_def)

lemma default_initialized_config [simp]: "runtime_config default_initialized = DEFAULT_CONFIG"
  by (simp add: default_initialized_def default_runtime_def AgentRuntime_new_def)

lemma default_not_rejecting [simp]: "\<not> circuit_rejects default_initialized env"
  by (simp add: circuit_rejects_def default_initialized_def default_runtime_def
      AgentRuntime_new_def DEFAULT_CONFIG_def CircuitBreaker_new_def isOpen_def)

lemma retry_DEFAULT [simp]:
  "retry DEFAULT_CONFIG = \<lparr>maxRetries = 3, baseDelay = 1000, maxDelay = 30000, factor = 2\<rparr>"
  and default_timeout_DEFAULT [simp]: "default_timeout DEFAULT_CONFIG = 60000"
  by (simp_all add: DEFAULT_CONFIG_def)

lemma effective_timeout_no_overrides [simp]:
  "effective_timeout no_overrides rc = default_timeout rc"
  by (simp add: effective_timeout_def no_overrides_def)

lemma env_at_simps [simp]:
  "backend (env_at t e core) = core" "random (env_at t e core) = (\<lambda>n. 0)"
  "t_start (env_at t e core) = t" "t_end (env_at t e core) = t + e"
  "t_check (env_at t e core) = t" "t_record (env_at t e core) = t + e"
  "new_id (env_at t e core) = ''exec_1''" "deadline_first (env_at t e core) = True"
  by (simp_all add: env_at_def)

lemma timing_out_run:
  "outcome (retried_call default_initialized task (env_at t e timing_out_backend)) =
     Rejects 7020 (Agent (AgentTimeoutError_new ''completion'' 5000))"
  by (simp add: retried_call_def executeWithRetry_def executeWithRetry_loop.simps
      timing_out_backend_def preceded_def calculateDelay_def timer_ms_def
      AgentTimeoutError_new_def AgentError_new_def)

lemma source_run:
  "\<exists>v. outcome (retried_call default_initialized task (env_at t e source_backend)) = Resolves 0 v"
  by (simp add: retried_call_def executeWithRetry_def executeWithRetry_loop.simps
      source_backend_def executeCore_def)

lemma slow_run:
  "\<exists>v. outcome (retried_call default_initialized task (env_at t e slow_backend)) = Resolves 5 v"
  by (simp add: retried_call_def executeWithRetry_def executeWithRetry_loop.simps
      slow_backend_def source_backend_def executeCore_def)

lemma slow_run_any:
  "backend env = slow_backend \<Longrightarrow>
   \<exists>v. outcome (retried_call default_initialized task env) = Resolves 5 v"
  by (simp add: retried_call_def executeWithRetry_def executeWithRetry_loop.simps
      slow_backend_def source_backend_def executeCore_def)

lemma hanging_run:
  "outcome (retried_call default_initialized task (env_at t e hanging_backend)) = NeverSettles"
  by (simp add: retried_call_def executeWithRetry_def executeWithRetry_loop.simps
      hanging_backend_def)

text \<open>
  C5. \<open>execute\<close> raises only when \<open>initialize\<close> does, that is when the runtime is not
  yet initialized and \<open>validateConfig\<close> rejects its configuration. In every other case
  it returns a result, whatever the breaker, the backend and the clock do, and that
  result has a terminal status (completed, failed or timeout, never pending or
  running) and the duration the \<open>finally\<close> block stamps: the clock at the end minus
  \<open>startTime\<close>.
\<close>

theorem execute_returns_terminal_result:
  "((\<exists>err. execute rt0 task cfg env = Inl err) \<longleftrightarrow>
      (\<not> isInitialized rt0 \<and> validateConfig (runtime_config rt0) \<noteq> None)) \<and>
   (\<forall>ex. execute rt0 task cfg env = Inr ex \<longrightarrow>
      status (result ex) \<in> {Completed, Failed, Timeout} \<and>
      status (result ex) \<noteq> Pending \<and> status (result ex) \<noteq> Running \<and>
      duration (result ex) = int (t_end env) - int (t_start env))"
proof (intro conjI allI impI)
  have "(\<exists>err. execute rt0 task cfg env = Inl err) \<longleftrightarrow> (\<exists>err. initialize rt0 = Inl err)"
    by (cases "initialize rt0") (simp_all add: execute_def Let_def)
  then show "(\<exists>err. execute rt0 task cfg env = Inl err) \<longleftrightarrow>
      (\<not> isInitialized rt0 \<and> validateConfig (runtime_config rt0) \<noteq> None)"
    by (simp add: initialize_raises)
next
  fix ex assume ex: "execute rt0 task cfg env = Inr ex"
  then obtain rt where i: "initialize rt0 = Inr rt"
    by (cases "initialize rt0") (simp_all add: execute_def)
  from execute_status[OF i, of task cfg env] ex
  have s: "status (result ex) =
     (if circuit_rejects rt env then Failed
           else case race (deadline_first env) (effective_timeout cfg (runtime_config rt))
                       (outcome (retried_call rt task env)) of
                  Inr r \<Rightarrow> Completed
                | Inl err \<Rightarrow> if instanceof_AgentTimeoutError err then Timeout else Failed)"
    by (simp add: returned_status_def)
  then show "status (result ex) \<in> {Completed, Failed, Timeout}"
    by (simp split: sum.splits)
  from s show "status (result ex) \<noteq> Pending" by (simp split: sum.splits)
  from s show "status (result ex) \<noteq> Running" by (simp split: sum.splits)
  from ex show "duration (result ex) = int (t_end env) - int (t_start env)"
    by (rule execute_duration)
qed


theorem execute_returns_terminal_result_witness:
  "\<exists>ex. execute default_runtime ''hi'' no_overrides (env_at 100 1 source_backend) = Inr ex \<and>
        status (result ex) \<in> {Completed, Failed, Timeout} \<and> duration (result ex) = 1"
proof -
  let ?r = "execute default_runtime ''hi'' no_overrides (env_at 100 1 source_backend)"
  note t = execute_returns_terminal_result[of default_runtime "''hi''" no_overrides
      "env_at 100 1 source_backend"]
  have "validateConfig (runtime_config default_runtime) = None"
    by (simp add: default_runtime_def AgentRuntime_new_def DEFAULT_CONFIG_def validateConfig_def)
  with t have "\<not> (\<exists>err. ?r = Inl err)" by simp
  then obtain ex where ex: "?r = Inr ex" by (cases ?r) auto
  with t have "status (result ex) \<in> {Completed, Failed, Timeout}"
    "duration (result ex) = int (t_end (env_at 100 1 source_backend))
        - int (t_start (env_at 100 1 source_backend))" by blast+
  with ex show ?thesis by simp
qed

text \<open>
  C4 as stated fails: the status is decided by \<open>error instanceof AgentTimeoutError\<close>,
  and the retried call can surface such an error itself. With the default
  configuration and a backend whose every call rejects after 5 ms with an
  \<open>AgentTimeoutError\<close> (retryable, so it is retried three times, after 1000, 2000 and
  4000 ms), the retried call rejects 7020 ms after its start, long before the deadline
  of 60000 ms, and the status is timeout.
\<close>

theorem status_classification_counterexample:
  "outcome (retried_call default_initialized ''hi'' (env_at 100 7020 timing_out_backend)) =
     Rejects 7020 (Agent (AgentTimeoutError_new ''completion'' 5000)) \<and>
   (7020 :: real) < timer_ms (real (effective_timeout no_overrides (runtime_config default_initialized))) \<and>
   initialize default_runtime = Inr default_initialized \<and>
   returned_status (execute default_runtime ''hi'' no_overrides (env_at 100 7020 timing_out_backend))
     = Some Timeout"
  using execute_status[OF initialize_default, of "''hi''" no_overrides "env_at 100 7020 timing_out_backend"]
  by (simp add: timing_out_run initialize_default race_def settles_first_def timer_ms_def)

text \<open>
  C4, amended. The status is timeout exactly when the error that reaches the \<open>catch\<close>
  block of \<open>execute\<close> is an \<open>AgentTimeoutError\<close>: the deadline timer ran before the
  retried backend call settled (or the call never settles), or the retried call
  itself rejected first with an \<open>AgentTimeoutError\<close>. The deadline timer is a
  \<open>setTimeout\<close> of the effective timeout, so it is due after that many milliseconds
  when they lie between 1 and 2147483647, and after 1 ms otherwise. Every other error,
  a non-retryable backend error and the open circuit among them, gives failed, and a
  call that resolves first gives completed.
\<close>

theorem status_classification:
  assumes "initialize rt0 = Inr rt"
  shows "returned_status (execute rt0 task cfg env) =
     Some (if circuit_rejects rt env then Failed
           else case outcome (retried_call rt task env) of
                  Resolves d v \<Rightarrow>
                    if settles_first (deadline_first env)
                         (effective_timeout cfg (runtime_config rt)) d
                    then Completed else Timeout
                | Rejects d e \<Rightarrow>
                    if settles_first (deadline_first env)
                         (effective_timeout cfg (runtime_config rt)) d
                    then (if instanceof_AgentTimeoutError e then Timeout else Failed)
                    else Timeout
                | NeverSettles \<Rightarrow> Timeout)"
  unfolding execute_status[OF assms]
  by (simp add: race_def split: Outcome.splits)

theorem status_classification_witness:
  "initialize default_runtime = Inr default_initialized \<and>
   returned_status (execute default_runtime ''hi'' no_overrides (env_at 100 1 source_backend))
     = Some Completed \<and>
   returned_status (execute default_runtime ''hi'' no_overrides (env_at 100 60000 hanging_backend))
     = Some Timeout \<and>
   timer_ms (real (effective_timeout (no_overrides\<lparr>call_timeout := Some 2147483648\<rparr>)
      (runtime_config default_initialized))) = 1 \<and>
   returned_status (execute default_runtime ''hi'' (no_overrides\<lparr>call_timeout := Some 2147483648\<rparr>)
      (env_at 100 1 slow_backend)) = Some Timeout \<and>
   returned_status (execute default_runtime ''hi'' (no_overrides\<lparr>call_timeout := Some 5\<rparr>)
      (env_at 100 5 slow_backend)) = Some Timeout \<and>
   returned_status (execute default_runtime ''hi'' (no_overrides\<lparr>call_timeout := Some 5\<rparr>)
      ((env_at 100 5 slow_backend)\<lparr>deadline_first := False\<rparr>)) = Some Completed"
proof -
  obtain v where v: "outcome (retried_call default_initialized ''hi'' (env_at 100 1 source_backend))
      = Resolves 0 v"
    using source_run by blast
  obtain w1 where w1: "outcome (retried_call default_initialized ''hi'' (env_at 100 1 slow_backend))
      = Resolves 5 w1"
    using slow_run by blast
  obtain w where w: "outcome (retried_call default_initialized ''hi'' (env_at 100 5 slow_backend))
      = Resolves 5 w"
    using slow_run by blast
  obtain w' where w': "outcome (retried_call default_initialized ''hi''
      ((env_at 100 5 slow_backend)\<lparr>deadline_first := False\<rparr>)) = Resolves 5 w'"
    using slow_run_any[of "(env_at 100 5 slow_backend)\<lparr>deadline_first := False\<rparr>"] by auto
  have r: "\<not> circuit_rejects default_initialized ((env_at 100 5 slow_backend)\<lparr>deadline_first := False\<rparr>)"
    by simp
  have e: "effective_timeout (no_overrides\<lparr>call_timeout := Some 2147483648\<rparr>) DEFAULT_CONFIG
      = 2147483648"
    "effective_timeout (no_overrides\<lparr>call_timeout := Some 5\<rparr>) DEFAULT_CONFIG = 5"
    by (simp_all add: effective_timeout_def)
  from status_classification[OF initialize_default, of "''hi''" no_overrides "env_at 100 1 source_backend"]
       status_classification[OF initialize_default, of "''hi''" no_overrides "env_at 100 60000 hanging_backend"]
       status_classification[OF initialize_default, of "''hi''"
         "no_overrides\<lparr>call_timeout := Some 2147483648\<rparr>" "env_at 100 1 slow_backend"]
       status_classification[OF initialize_default, of "''hi''"
         "no_overrides\<lparr>call_timeout := Some 5\<rparr>" "env_at 100 5 slow_backend"]
       status_classification[OF initialize_default, of "''hi''"
         "no_overrides\<lparr>call_timeout := Some 5\<rparr>"
         "(env_at 100 5 slow_backend)\<lparr>deadline_first := False\<rparr>"]
       v w1 w w' r e hanging_run initialize_default
  show ?thesis by (simp add: settles_first_def timer_ms_def)
qed

lemma initialize_runtime_with:
  "initialize (runtime_with b) =
     Inr ((runtime_with b)\<lparr>metrics := metrics_initialize (metrics (runtime_with b)),
                             isInitialized := True\<rparr>)"
  by (simp add: initialize_def runtime_with_def AgentRuntime_new_def test_config_def
      DEFAULT_CONFIG_def validateConfig_def metrics_on_def)

lemma circuit_open_fails_fast:
  assumes "initialize rt0 = Inr rt" and "circuit_rejects rt env"
  shows "\<exists>ex. execute rt0 task cfg env = Inr ex \<and> backend_trace ex = [] \<and>
           status (result ex) = Failed \<and>
           error (result ex) = Some ''Circuit breaker is open'' \<and>
           events ex = [Ev_execution_error (new_id env)
             (Agent (AgentError_new ''Circuit breaker is open'' ''CIRCUIT_OPEN'' False))]"
  unfolding execute_rejected[OF assms]
  by (simp add: finally_block_result finally_block_trace finally_block_events
      catch_block_result catch_block_events AgentError_new_def)

text \<open>
  C3, evaluated where the breaker of the tests has just opened (three failures, the
  last at time 30) and \<open>execute\<close> is called at time 40. The call is rejected without a
  backend call or a retry loop, and the result is failed with the message
  "Circuit breaker is open"; but the error \<open>execute\<close> throws and reports is a plain
  \<open>AgentError\<close> whose code is \<open>CIRCUIT_OPEN\<close>, not the code \<open>AGENT_CIRCUIT_OPEN\<close> that
  \<open>AgentCircuitOpenError\<close> of the taxonomy carries.
\<close>

theorem circuit_open_error_code:
  "circuit_rejects (runtime_with (recordFailure 30 closed2)) (env_at 40 0 source_backend) \<and>
   (\<exists>ex. execute (runtime_with (recordFailure 30 closed2)) ''task'' no_overrides
            (env_at 40 0 source_backend) = Inr ex \<and>
         backend_trace ex = [] \<and> status (result ex) = Failed \<and>
         error (result ex) = Some ''Circuit breaker is open'' \<and>
         events ex = [Ev_execution_error ''exec_1''
           (Agent (AgentError_new ''Circuit breaker is open'' ''CIRCUIT_OPEN'' False))]) \<and>
   code (AgentError_new ''Circuit breaker is open'' ''CIRCUIT_OPEN'' False) = ''CIRCUIT_OPEN'' \<and>
   code AgentCircuitOpenError_new = ''AGENT_CIRCUIT_OPEN'' \<and>
   code (AgentError_new ''Circuit breaker is open'' ''CIRCUIT_OPEN'' False)
     \<noteq> code AgentCircuitOpenError_new"
proof -
  have r: "circuit_rejects (runtime_with (recordFailure 30 closed2)) (env_at 40 0 source_backend)"
    by (simp add: circuit_rejects_def runtime_with_def opened3_eq isOpen_def)
  then have r': "circuit_rejects
      ((runtime_with (recordFailure 30 closed2))
         \<lparr>metrics := metrics_initialize (metrics (runtime_with (recordFailure 30 closed2))),
          isInitialized := True\<rparr>) (env_at 40 0 source_backend)"
    by (simp add: circuit_rejects_def)
  from circuit_open_fails_fast[OF initialize_runtime_with r', of "''task''" no_overrides] r
  show ?thesis by (simp add: AgentError_new_def AgentCircuitOpenError_new_def)
qed

lemma reopened1_eq:
  "reopened1 = \<lparr>config = cfg3, state = Open, failures = 1, successes = 0,
     lastFailureTime = Some 1040, nextAttemptTime = Some 2040\<rparr>"
  by (simp add: reopened1_def half_open3_eq breaker_defs cfg3_def)

lemma isOpen_true_unchanged: "fst (isOpen t b) \<Longrightarrow> state b = Open \<and> snd (isOpen t b) = b"
  by (auto simp: isOpen_def split: if_splits)

lemma execute_rejected_breaker:
  assumes "initialize rt0 = Inr rt" and "circuitBreaker rt = Some b" and "circuit_rejects rt env"
  shows "state b = Open \<and>
         breaker_after (execute rt0 task cfg env) = Some (recordFailure (t_record env) b)"
proof -
  from assms(2,3) have o: "fst (isOpen (t_check env) b)" by (simp add: circuit_rejects_def)
  note u = isOpen_true_unchanged[OF o]
  from assms(2) u have "circuitBreaker (after_check rt env) = Some b"
    by (simp add: after_check_def)
  then show ?thesis
    unfolding execute_rejected[OF assms(1,3)] using u
    by (simp add: breaker_after_def finally_block_breaker catch_block_breaker)
qed

text \<open>
  C9 as stated fails: an open breaker can count fewer failures than the threshold.
  The breaker of the tests opens after three failures, becomes half-open after a
  second, records a success (which clears the failure counter) and then a failure at
  1040, which reopens it until 2040 with one failure counted. A further
  \<open>recordFailure\<close> at 1500 counts two failures, fewer than three, and leaves the
  deadline at 2040; so does an \<open>execute\<close> call rejected at 1500.
\<close>

theorem recordFailure_while_open_counterexample:
  "reachable cfg3 reopened1 \<and> state reopened1 = Open \<and>
   failures reopened1 = 1 \<and> failureThreshold (config reopened1) = 3 \<and>
   nextAttemptTime reopened1 = Some 2040 \<and>
   nextAttemptTime (recordFailure 1500 reopened1) = Some 2040 \<and>
   circuit_rejects (runtime_with reopened1) (env_at 1500 0 source_backend) \<and>
   map_option nextAttemptTime
     (breaker_after (execute (runtime_with reopened1) ''task'' no_overrides
        (env_at 1500 0 source_backend))) = Some (Some 2040)"
proof -
  have "reachable cfg3 (fold recordFailure [10, 20, 30] (CircuitBreaker_new cfg3))"
    by (simp add: r_new r_recordFailure)
  then have "reachable cfg3 reopened1"
    unfolding reopened1_def half_open3_def
    by (intro r_recordFailure r_recordSuccess r_getState)
  moreover have r: "circuit_rejects (runtime_with reopened1) (env_at 1500 0 source_backend)"
    by (simp add: circuit_rejects_def runtime_with_def reopened1_eq isOpen_def)
  moreover have "breaker_after (execute (runtime_with reopened1) ''task'' no_overrides
        (env_at 1500 0 source_backend)) = Some (recordFailure 1500 reopened1)"
    using execute_rejected_breaker[OF initialize_runtime_with, of reopened1 reopened1
        "env_at 1500 0 source_backend" "''task''" no_overrides] r
    by (simp add: circuit_rejects_def runtime_with_def)
  moreover have "nextAttemptTime (recordFailure 1500 reopened1) = Some 2040"
    by (simp add: reopened1_eq breaker_defs cfg3_def)
  ultimately show ?thesis by (simp add: reopened1_eq cfg3_def)
qed

text \<open>
  C9, amended. On an open breaker \<open>recordFailure\<close> at time \<open>t\<close> keeps the state open.
  It reschedules the next-attempt deadline to \<open>t + timeout\<close> when the failure counter,
  once incremented, has reached \<open>failureThreshold\<close>, and leaves the deadline as it was
  otherwise. \<open>execute\<close> calls \<open>recordFailure\<close> on its circuit-open rejection path: the
  breaker after a rejected call is the breaker before it with one more
  \<open>recordFailure\<close>, so a rejected call extends the open window in the first case.
\<close>

theorem recordFailure_while_open:
  "(state b = Open \<longrightarrow>
      state (recordFailure t b) = Open \<and>
      (failureThreshold (config b) \<le> failures b + 1 \<longrightarrow>
         nextAttemptTime (recordFailure t b) = Some (t + timeout (config b))) \<and>
      (failures b + 1 < failureThreshold (config b) \<longrightarrow>
         nextAttemptTime (recordFailure t b) = nextAttemptTime b)) \<and>
   (initialize rt0 = Inr rt \<and> circuitBreaker rt = Some c \<and> circuit_rejects rt env \<longrightarrow>
      state c = Open \<and>
      breaker_after (execute rt0 task cfg env) = Some (recordFailure (t_record env) c))"
proof (intro conjI impI)
  assume "initialize rt0 = Inr rt \<and> circuitBreaker rt = Some c \<and> circuit_rejects rt env"
  then have h: "initialize rt0 = Inr rt" "circuitBreaker rt = Some c" "circuit_rejects rt env"
    by simp_all
  from execute_rejected_breaker[OF h]
  show "state c = Open"
    "breaker_after (execute rt0 task cfg env) = Some (recordFailure (t_record env) c)"
    by simp_all
qed (simp_all add: recordFailure_def setNextAttemptTime_def Let_def)

theorem recordFailure_while_open_witness:
  "state (recordFailure 30 closed2) = Open \<and>
   failureThreshold (config (recordFailure 30 closed2)) \<le> failures (recordFailure 30 closed2) + 1 \<and>
   nextAttemptTime (recordFailure 30 closed2) = Some 1030 \<and>
   nextAttemptTime (recordFailure 500 (recordFailure 30 closed2)) = Some 1500 \<and>
   circuit_rejects (runtime_with (recordFailure 30 closed2)) (env_at 500 0 source_backend) \<and>
   map_option nextAttemptTime
     (breaker_after (execute (runtime_with (recordFailure 30 closed2)) ''task'' no_overrides
        (env_at 500 0 source_backend))) = Some (Some 1500) \<and>
   state reopened1 = Open \<and>
   failures reopened1 + 1 < failureThreshold (config reopened1) \<and>
   nextAttemptTime (recordFailure 1500 reopened1) = nextAttemptTime reopened1"
proof -
  let ?rt = "(runtime_with (recordFailure 30 closed2))
         \<lparr>metrics := metrics_initialize (metrics (runtime_with (recordFailure 30 closed2))),
          isInitialized := True\<rparr>"
  have r: "circuit_rejects ?rt (env_at 500 0 source_backend)"
    "circuit_rejects (runtime_with (recordFailure 30 closed2)) (env_at 500 0 source_backend)"
    by (simp_all add: circuit_rejects_def runtime_with_def opened3_eq isOpen_def)
  have c: "circuitBreaker ?rt = Some (recordFailure 30 closed2)"
    by (simp add: runtime_with_def)
  from recordFailure_while_open[of "recordFailure 30 closed2" 500
         "runtime_with (recordFailure 30 closed2)" ?rt "recordFailure 30 closed2"
         "env_at 500 0 source_backend" "''task''" no_overrides]
       recordFailure_while_open[of reopened1 1500
         "runtime_with (recordFailure 30 closed2)" ?rt "recordFailure 30 closed2"
         "env_at 500 0 source_backend" "''task''" no_overrides]
       initialize_runtime_with[of "recordFailure 30 closed2"] r c
  show ?thesis by (simp add: opened3_eq reopened1_eq cfg3_def)
qed









lemma effective_timeout_zero:
  "effective_timeout (cfg\<lparr>call_timeout := Some 0\<rparr>) rc = default_timeout rc"
  "effective_timeout (cfg\<lparr>call_timeout := None\<rparr>) rc = default_timeout rc"
  by (simp_all add: effective_timeout_def)

lemma effective_timeout_override:
  "n \<noteq> 0 \<Longrightarrow> effective_timeout (cfg\<lparr>call_timeout := Some n\<rparr>) rc = n"
  by (simp add: effective_timeout_def)

lemma execute_status_resolving:
  assumes "initialize rt0 = Inr rt" and "\<not> circuit_rejects rt env"
    and "outcome (retried_call rt task env) = Resolves d v"
  shows "returned_status (execute rt0 task cfg env) =
     Some (if settles_first (deadline_first env) (effective_timeout cfg (runtime_config rt)) d
           then Completed else Timeout)"
  unfolding execute_status[OF assms(1)] using assms(2,3) by (simp add: race_def)

text \<open>
  C10. The effective timeout is \<open>config.timeout || this.config.timeout\<close>: an override
  that is not zero is used, and an override of 0 is falsy, like a missing one, so the
  configured default is used. \<open>execute\<close> with the override 0 does exactly what it does
  with no override: the deadline timer of the race is that of the default timeout, so
  a backend call that resolves before it gives completed, not an immediate timeout,
  whereas with an override \<open>n\<close> other than 0 the deadline timer is that of \<open>n\<close>.
\<close>

theorem zero_timeout_override_ignored:
  "effective_timeout (cfg\<lparr>call_timeout := Some 0\<rparr>) rc = default_timeout rc \<and>
   effective_timeout (cfg\<lparr>call_timeout := None\<rparr>) rc = default_timeout rc \<and>
   (n \<noteq> 0 \<longrightarrow> effective_timeout (cfg\<lparr>call_timeout := Some n\<rparr>) rc = n) \<and>
   execute rt0 task (cfg\<lparr>call_timeout := Some 0\<rparr>) env =
     execute rt0 task (cfg\<lparr>call_timeout := None\<rparr>) env \<and>
   (initialize rt0 = Inr rt \<and> \<not> circuit_rejects rt env \<and>
    outcome (retried_call rt task env) = Resolves d v \<longrightarrow>
      returned_status (execute rt0 task (cfg\<lparr>call_timeout := Some 0\<rparr>) env) =
        Some (if settles_first (deadline_first env) (default_timeout (runtime_config rt)) d
              then Completed else Timeout) \<and>
      (n \<noteq> 0 \<longrightarrow>
        returned_status (execute rt0 task (cfg\<lparr>call_timeout := Some n\<rparr>) env) =
          Some (if settles_first (deadline_first env) n d then Completed else Timeout)))"
proof (intro conjI impI)
  show "execute rt0 task (cfg\<lparr>call_timeout := Some 0\<rparr>) env =
     execute rt0 task (cfg\<lparr>call_timeout := None\<rparr>) env"
    by (cases "initialize rt0") (simp_all add: execute_def effective_timeout_zero)
next
  assume h: "initialize rt0 = Inr rt \<and> \<not> circuit_rejects rt env \<and>
    outcome (retried_call rt task env) = Resolves d v"
  then show "returned_status (execute rt0 task (cfg\<lparr>call_timeout := Some 0\<rparr>) env) =
        Some (if settles_first (deadline_first env) (default_timeout (runtime_config rt)) d
              then Completed else Timeout)"
    by (simp add: execute_status_resolving effective_timeout_zero)
  assume "n \<noteq> 0"
  with h show "returned_status (execute rt0 task (cfg\<lparr>call_timeout := Some n\<rparr>) env) =
          Some (if settles_first (deadline_first env) n d then Completed else Timeout)"
    by (simp add: execute_status_resolving effective_timeout_override)
qed (simp_all add: effective_timeout_zero effective_timeout_override)

theorem zero_timeout_override_ignored_witness:
  "initialize default_runtime = Inr default_initialized \<and>
   \<not> circuit_rejects default_initialized (env_at 100 5 slow_backend) \<and>
   (\<exists>v. outcome (retried_call default_initialized ''hi'' (env_at 100 5 slow_backend))
          = Resolves 5 v) \<and>
   effective_timeout (no_overrides\<lparr>call_timeout := Some 0\<rparr>) DEFAULT_CONFIG = 60000 \<and>
   effective_timeout (no_overrides\<lparr>call_timeout := Some 3\<rparr>) DEFAULT_CONFIG = 3 \<and>
   \<not> settles_first True 0 5 \<and>
   returned_status (execute default_runtime ''hi'' (no_overrides\<lparr>call_timeout := Some 0\<rparr>)
     (env_at 100 5 slow_backend)) = Some Completed \<and>
   returned_status (execute default_runtime ''hi'' (no_overrides\<lparr>call_timeout := Some 3\<rparr>)
     (env_at 100 5 slow_backend)) = Some Timeout"
proof -
  obtain v where v: "outcome (retried_call default_initialized ''hi'' (env_at 100 5 slow_backend))
      = Resolves 5 v"
    using slow_run by blast
  note z = zero_timeout_override_ignored[of no_overrides DEFAULT_CONFIG 3 default_runtime "''hi''"
         "env_at 100 5 slow_backend" default_initialized 5 v]
  from z have e: "effective_timeout (no_overrides\<lparr>call_timeout := Some 0\<rparr>) DEFAULT_CONFIG = 60000"
    "effective_timeout (no_overrides\<lparr>call_timeout := Some 3\<rparr>) DEFAULT_CONFIG = 3"
    by simp_all
  from z[THEN conjunct2, THEN conjunct2, THEN conjunct2, THEN conjunct2] v initialize_default
  have "returned_status (execute default_runtime ''hi'' (no_overrides\<lparr>call_timeout := Some 0\<rparr>)
     (env_at 100 5 slow_backend)) = Some Completed"
    "returned_status (execute default_runtime ''hi'' (no_overrides\<lparr>call_timeout := Some 3\<rparr>)
     (env_at 100 5 slow_backend)) = Some Timeout"
    by (simp_all add: settles_first_def timer_ms_def)
  with e v initialize_default show ?thesis by (simp add: settles_first_def timer_ms_def)
qed

lemma executeWithRetry_loop_non_retryable:
  assumes "attempt \<le> maxRetries rc" and "core attempt msgs = Rejects d err"
    and "non_retryable err"
  shows "executeWithRetry_loop core rc rnd msgs attempt lastError =
     \<lparr>trace = [Emit (Ev_execution_attempt attempt (maxRetries rc)), Call attempt],
      outcome = Rejects d err\<rparr>"
  using assms by (subst executeWithRetry_loop.simps) simp

lemma executeWithRetry_non_retryable_first:
  assumes "core 0 msgs = Rejects d err" and "non_retryable err"
  shows "outcome (executeWithRetry core rc rnd msgs) = Rejects d err \<and>
         invocations (trace (executeWithRetry core rc rnd msgs)) = 1 \<and>
         filter is_ComputeDelay (trace (executeWithRetry core rc rnd msgs)) = [] \<and>
         filter is_Sleep (trace (executeWithRetry core rc rnd msgs)) = []"
  using executeWithRetry_loop_non_retryable[of 0 rc core msgs d err rnd None] assms
  by (simp add: executeWithRetry_def invocations_def)

lemma withRetry_loop_always_rejecting:
  "\<forall>n. \<exists>d e. fn n = Rejects d e \<Longrightarrow> attempt \<le> maxRetries cfg \<Longrightarrow>
    invocations (trace (withRetry_loop fn cfg onRetry rnd attempt lastError))
      = maxRetries cfg + 1 - attempt"
proof (induction fn cfg onRetry rnd attempt lastError rule: withRetry_loop.induct)
  case (1 fn cfg onRetry rnd attempt lastError)
  from "1.prems"(1) obtain d e where r: "fn attempt = Rejects d e" by blast
  show ?case
  proof (cases "attempt = maxRetries cfg")
    case True
    with r show ?thesis
      by (subst withRetry_loop.simps) (simp add: invocations_def)
  next
    case False
    with "1.prems" have lt: "attempt + 1 \<le> maxRetries cfg" by simp
    from "1.IH"[OF "1.prems"(2) r False refl "1.prems"(1) lt]
    have "invocations (trace (withRetry_loop fn cfg onRetry rnd (attempt + 1) (Some (as_Error e))))
        = maxRetries cfg + 1 - (attempt + 1)" .
    with r False "1.prems" lt show ?thesis
      by (subst withRetry_loop.simps) (auto simp add: preceded_def invocations_def Let_def)
  qed
qed

lemma withRetry_always_rejecting:
  "\<forall>n. \<exists>d e. fn n = Rejects d e \<Longrightarrow>
   invocations (trace (withRetry fn cfg onRetry rnd)) = maxRetries cfg + 1"
  using withRetry_loop_always_rejecting[of fn 0 cfg onRetry rnd None]
  by (simp add: withRetry_def)

text \<open>
  C1, evaluated on an operation whose every call rejects with a non-retryable
  \<open>AgentError\<close>, with one retry allowed. \<open>executeWithRetry\<close> tests the flag and
  stops after the first call, with no delay and no sleep (lemma
  \<open>executeWithRetry_non_retryable_first\<close> has it for every backend and configuration).
  \<open>withRetry\<close> never reads the flag: it computes a delay, sleeps and calls the
  operation a second time (for every operation that always rejects it makes
  \<open>maxRetries + 1\<close> calls, lemma \<open>withRetry_always_rejecting\<close>).
\<close>

theorem withRetry_ignores_retryable_flag:
  "non_retryable (Agent (AgentError_new ''bad'' ''BAD'' False)) \<and>
   withRetry always_bad quick_retry False (\<lambda>n. 0) =
     \<lparr>trace = [Call 0, ComputeDelay 0 100, Sleep 100, Call 1],
      outcome = Rejects 110 (Agent (AgentError_new ''bad'' ''BAD'' False))\<rparr> \<and>
   invocations (trace (withRetry always_bad quick_retry False (\<lambda>n. 0))) = 2 \<and>
   executeWithRetry bad_backend quick_retry (\<lambda>n. 0) [] =
     \<lparr>trace = [Emit (Ev_execution_attempt 0 1), Call 0],
      outcome = Rejects 5 (Agent (AgentError_new ''bad'' ''BAD'' False))\<rparr> \<and>
   invocations (trace (executeWithRetry bad_backend quick_retry (\<lambda>n. 0) [])) = 1"
  by (simp add: withRetry_def withRetry_loop.simps executeWithRetry_def
      executeWithRetry_loop.simps always_bad_def bad_backend_def quick_retry_def
      invocations_def preceded_def calculateDelay_def timer_ms_def AgentError_new_def)

end
